theory Spec2Isabelle
  imports Main "HOL-Library.Sublist"
begin

section \<open>Values, documents and the conversations collection\<close>

text \<open>
  The bot of \<^verbatim>\<open>main.py\<close> keeps one MongoDB document per conversation,
  \<^verbatim>\<open>{"thread_id": ..., "messages": [{"role": ..., "content": ...}, ...], "model": ...}\<close>,
  and talks to an HTTP inference endpoint whose reply is read with \<^verbatim>\<open>response.json()\<close>.
  The reply is an arbitrary Python value, and whatever sits under
  \<^verbatim>\<open>["result"]["response"]\<close> is stored as the content of the assistant entry, so the
  content of an entry is a Python value and not only a string. Python's \<^verbatim>\<open>None\<close> is
  \<open>PNone\<close>; a dict is an association list read with \<open>map_of\<close>. Floats do not occur
  in anything the handlers inspect and are left out.
\<close>

datatype pyval =
    PNone
  | PBool bool
  | PInt int
  | PStr string
  | PList "pyval list"
  | PDict "(string \<times> pyval) list"

datatype py_error =
    KeyError | TypeError | AttributeError | ClientError | OverflowError | InvalidDocument

record message =
  role :: string
  content :: pyval

record conversation =
  thread_id :: int
  messages :: "message list"
  model :: string

text \<open>
  The collection is the list of its documents in insertion order. The source creates no
  unique index, so \<^verbatim>\<open>insert_one\<close> always adds a document; \<^verbatim>\<open>find_one\<close> and
  \<^verbatim>\<open>update_one\<close> act on the first document that matches the filter
  \<^verbatim>\<open>{"thread_id": thread_id}\<close>. \<open>update_one_push\<close> is what a \<^verbatim>\<open>$push\<close> on
  \<^verbatim>\<open>messages\<close> does to the collection once the store has received it; on no match it
  changes nothing.
\<close>

type_synonym collection = "conversation list"

definition insert_one :: "collection \<Rightarrow> conversation \<Rightarrow> collection" where
  "insert_one c d = c @ [d]"

definition find_one :: "collection \<Rightarrow> int \<Rightarrow> conversation option" where
  "find_one c tid = find (\<lambda>d. thread_id d = tid) c"

fun update_one_push :: "collection \<Rightarrow> int \<Rightarrow> message \<Rightarrow> collection" where
  "update_one_push [] tid m = []"
| "update_one_push (d # ds) tid m =
     (if thread_id d = tid then d\<lparr>messages := messages d @ [m]\<rparr> # ds
      else d # update_one_push ds tid m)"

text \<open>
  Before anything is sent, the driver encodes the update document as BSON, and that fails on
  some Python values: an integer that does not fit in eight bytes raises
  \<^verbatim>\<open>OverflowError\<close>, and a dict key that contains the NUL character raises
  \<^verbatim>\<open>InvalidDocument\<close>. The encoder walks the value in order, a key before its value, and
  stops at the first such item. \<open>update_one\<close> is the call of the source: the exception of
  the encoder, with the collection untouched, or the collection after the push. Limits that
  the store itself puts on a document (its size, its depth) are taken not to be reached.
\<close>

fun first_error :: "py_error option list \<Rightarrow> py_error option" where
  "first_error [] = None"
| "first_error (None # es) = first_error es"
| "first_error (Some e # es) = Some e"

primrec bson_error :: "pyval \<Rightarrow> py_error option" where
  "bson_error PNone = None"
| "bson_error (PBool b) = None"
| "bson_error (PInt n) = (if - (2 ^ 63) \<le> n \<and> n < 2 ^ 63 then None else Some OverflowError)"
| "bson_error (PStr s) = None"
| "bson_error (PList xs) = first_error (map bson_error xs)"
| "bson_error (PDict kvs) =
     first_error (map (\<lambda>(k, e). if CHR 0x00 \<in> set k then Some InvalidDocument else e)
                      (map (map_prod id bson_error) kvs))"

definition update_one :: "collection \<Rightarrow> int \<Rightarrow> message \<Rightarrow> py_error + collection" where
  "update_one c tid m =
     (case bson_error (content m) of
        Some e \<Rightarrow> Inl e
      | None \<Rightarrow> Inr (update_one_push c tid m))"

section \<open>Effects\<close>

text \<open>
  Every call that leaves the process is recorded, in program order, in the trace of the
  world; an \<^verbatim>\<open>update_one\<close> whose document cannot be encoded raises before it leaves the
  process and is not recorded. The platform calls (defer, reply, edit, thread creation) are assumed to succeed; the
  inference call is the parameter \<open>service\<close>: given the model of the URL and the
  \<^verbatim>\<open>messages\<close> of the request body it yields the value of \<^verbatim>\<open>response.json()\<close>, or
  the exception raised by \<^verbatim>\<open>session.post\<close> or by the decoding.
\<close>

datatype event =
    Defer
  | FollowupSend string
  | CreateThread string
  | AddUser
  | EditOriginal pyval
  | InsertOne conversation
  | FindOne int
  | UpdateOne int message
  | Post string "message list"
  | Reply pyval
  | ProcessCommands

record world =
  conversations :: collection
  session_ready :: bool
  mention :: string
  trace :: "event list"

type_synonym service = "string \<Rightarrow> message list \<Rightarrow> py_error + pyval"

definition emit :: "event \<Rightarrow> world \<Rightarrow> world" where
  "emit e w = w\<lparr>trace := trace w @ [e]\<rparr>"

section \<open>Python primitives used by the handlers\<close>

text \<open>
  \<^verbatim>\<open>s.replace(old, "")\<close>: scanning from the left, every non-overlapping occurrence of
  \<open>old\<close> is dropped; with an empty \<open>old\<close> the string is returned as it is.
\<close>

function str_replace_empty :: "string \<Rightarrow> string \<Rightarrow> string" where
  "str_replace_empty old [] = []"
| "str_replace_empty old (c # cs) =
     (if old \<noteq> [] \<and> prefix old (c # cs)
      then str_replace_empty old (drop (length old) (c # cs))
      else c # str_replace_empty old cs)"
  by pat_completeness auto
termination
  by (relation "measure (\<lambda>(old, s). length s)") auto

text \<open>
  \<^verbatim>\<open>v[k]\<close> with a string key: a dict yields the value or raises \<^verbatim>\<open>KeyError\<close>; every
  other value raises \<^verbatim>\<open>TypeError\<close>.
\<close>

fun subscript :: "pyval \<Rightarrow> string \<Rightarrow> py_error + pyval" where
  "subscript (PDict kvs) k = (case map_of kvs k of None \<Rightarrow> Inl KeyError | Some v \<Rightarrow> Inr v)"
| "subscript v k = Inl TypeError"

text \<open>\<^verbatim>\<open>v.append\<close> exists on lists only.\<close>

fun has_append :: "pyval \<Rightarrow> bool" where
  "has_append (PList xs) = True"
| "has_append v = False"

section \<open>Session creation: \<^verbatim>\<open>SelectModelSelect.callback\<close>\<close>

definition persona :: string where
  "persona = ''You are a Discord Bot. Be rude, don't speak so formally. Speak with slang.''"

definition system_entry :: message where
  "system_entry = \<lparr>role = ''system'', content = PStr persona\<rparr>"

text \<open>
  \<open>has_message\<close> is the truth value of \<^verbatim>\<open>interaction.message\<close>, \<open>user_mention\<close> is
  \<^verbatim>\<open>interaction.user.mention\<close> and \<open>new_thread\<close> is the id of the thread returned by
  \<^verbatim>\<open>create_thread\<close>. The handler has no return value.
\<close>

definition callback :: "string \<Rightarrow> bool \<Rightarrow> string \<Rightarrow> int \<Rightarrow> world \<Rightarrow> world" where
  "callback model_name has_message user_mention new_thread w =
     (let w1 = emit Defer w in
      if \<not> has_message
      then emit (FollowupSend ''Something went wrong, please try again later!'') w1
      else
        let w2 = emit (CreateThread (''Chat with '' @ model_name)) w1;
            w3 = emit (EditOriginal (PStr (''Hi '' @ user_mention
                   @ ''! You are now chatting with '' @ model_name
                   @ ''! @mention me for me to process your message!''))) w2;
            w4 = emit AddUser w3;
            doc = \<lparr>thread_id = new_thread, messages = [system_entry], model = model_name\<rparr>
        in emit (InsertOne doc) (w4\<lparr>conversations := insert_one (conversations w4) doc\<rparr>))"

section \<open>\<^verbatim>\<open>Bot.fetch_response\<close>\<close>

text \<open>
  After the request, the name \<^verbatim>\<open>data\<close> is bound to the decoded reply, so the
  \<^verbatim>\<open>data["messages"].append\<close> that follows reads the reply, not the document; it raises
  unless the reply carries a list under \<^verbatim>\<open>"messages"\<close>. The local
  \<^verbatim>\<open>append\<close> before the first \<^verbatim>\<open>update_one\<close> builds the history of the request. The
  result \<open>Inr PNone\<close> is the bare \<^verbatim>\<open>return\<close>; \<open>Inl\<close> is an exception leaving the
  coroutine.
\<close>

definition fetch_response ::
  "service \<Rightarrow> string \<Rightarrow> string \<Rightarrow> int \<Rightarrow> world \<Rightarrow> (py_error + pyval) \<times> world" where
  "fetch_response svc model_id msg tid w =
     (let cleaned = str_replace_empty (mention w) msg;
          w1 = emit (FindOne tid) w
      in case find_one (conversations w1) tid of
           None \<Rightarrow> (Inr PNone, w1)
         | Some data \<Rightarrow>
             if \<not> session_ready w1 then (Inr PNone, w1)
             else
               let user_entry = \<lparr>role = ''user'', content = PStr cleaned\<rparr>;
                   history = messages data @ [user_entry]
               in case update_one (conversations w1) tid user_entry of
                    Inl e \<Rightarrow> (Inl e, w1)
                  | Inr c2 \<Rightarrow>
                      let w2 = emit (UpdateOne tid user_entry) (w1\<lparr>conversations := c2\<rparr>);
                          w3 = emit (Post model_id history) w2
                      in case svc model_id history of
                           Inl e \<Rightarrow> (Inl e, w3)
                         | Inr reply \<Rightarrow>
                             (case subscript reply ''result'' of
                                Inl e \<Rightarrow> (Inl e, w3)
                              | Inr res \<Rightarrow>
                                  (case subscript res ''response'' of
                                     Inl e \<Rightarrow> (Inl e, w3)
                                   | Inr ai_message \<Rightarrow>
                                       (case subscript reply ''messages'' of
                                          Inl e \<Rightarrow> (Inl e, w3)
                                        | Inr ms \<Rightarrow>
                                            if \<not> has_append ms then (Inl AttributeError, w3)
                                            else
                                              let reply_entry =
                                                    \<lparr>role = ''assistant'',
                                                     content = ai_message\<rparr>
                                              in case update_one (conversations w3) tid
                                                        reply_entry of
                                                   Inl e \<Rightarrow> (Inl e, w3)
                                                 | Inr c4 \<Rightarrow>
                                                     (Inr ai_message,
                                                      emit (UpdateOne tid reply_entry)
                                                        (w3\<lparr>conversations := c4\<rparr>))))))"

section \<open>The handlers\<close>

text \<open>
  An inbound platform message: \<open>msg_mentioned\<close> is \<^verbatim>\<open>bot.user.mentioned_in(message)\<close>.
  The handlers return nothing; \<open>Inr ()\<close> is normal completion and \<open>Inl e\<close> an
  exception that escapes the handler.
\<close>

record inbound =
  msg_author_bot :: bool
  msg_mentioned :: bool
  msg_content :: string
  msg_channel_id :: int

definition no_session_text :: string where
  "no_session_text = ''This is not a message I generated a response for, and I can't generate a response for it without breach of privacy.''"

definition invalid_target_text :: string where
  "invalid_target_text = ''This command is used on a message I replied to, not my reply. Please try again!''"

definition regenerate_response ::
  "service \<Rightarrow> int \<Rightarrow> inbound \<Rightarrow> world \<Rightarrow> (py_error + unit) \<times> world" where
  "regenerate_response svc channel_id target w =
     (let w1 = emit (FindOne channel_id) (emit Defer w)
      in case find_one (conversations w1) channel_id of
           None \<Rightarrow> (Inr (), emit (EditOriginal (PStr no_session_text)) w1)
         | Some data \<Rightarrow>
             if msg_author_bot target \<or> msg_content target = []
             then (Inr (), emit (EditOriginal (PStr invalid_target_text)) w1)
             else
               (case fetch_response svc (model data) (msg_content target) channel_id w1 of
                  (Inl e, w2) \<Rightarrow> (Inl e, w2)
                | (Inr ai_message, w2) \<Rightarrow>
                    if ai_message = PNone then (Inr (), w2)
                    else (Inr (), emit (EditOriginal ai_message) w2)))"

definition on_message :: "service \<Rightarrow> inbound \<Rightarrow> world \<Rightarrow> (py_error + unit) \<times> world" where
  "on_message svc m w =
     (if msg_author_bot m \<or> \<not> msg_mentioned m \<or> msg_content m = []
      then (Inr (), emit ProcessCommands w)
      else
        let w1 = emit (FindOne (msg_channel_id m)) w
        in case find_one (conversations w1) (msg_channel_id m) of
             None \<Rightarrow> (Inr (), emit ProcessCommands w1)
           | Some data \<Rightarrow>
               (case fetch_response svc (model data) (msg_content m) (msg_channel_id m) w1 of
                  (Inl e, w2) \<Rightarrow> (Inl e, w2)
                | (Inr ai_message, w2) \<Rightarrow>
                    if ai_message = PNone then (Inr (), w2)
                    else (Inr (), emit (Reply ai_message) w2)))"

section \<open>Dispatch of platform events\<close>

text \<open>
  The library calls one handler per platform event, on the state the previous handler left
  behind (also when that handler ended in an exception: what it had written stays written).
\<close>

datatype action =
    Bind string bool string int
  | Inbound service inbound
  | Regenerate service int inbound

fun step :: "action \<Rightarrow> world \<Rightarrow> world" where
  "step (Bind model_name has_message user_mention new_thread) w =
     callback model_name has_message user_mention new_thread w"
| "step (Inbound svc m) w = snd (on_message svc m w)"
| "step (Regenerate svc channel_id target) w = snd (regenerate_response svc channel_id target w)"

fun run :: "action list \<Rightarrow> world \<Rightarrow> world" where
  "run [] w = w"
| "run (a # as) w = run as (step a w)"

section \<open>Observations on states and traces\<close>

text \<open>The first entry of a document's history is the system entry written at creation.\<close>

definition system_first :: "conversation \<Rightarrow> bool" where
  "system_first d = (case messages d of [] \<Rightarrow> False | m # ms \<Rightarrow> m = system_entry)"

text \<open>The events a handler added to the trace, and among them the appends and requests.\<close>

definition new_events :: "world \<Rightarrow> world \<Rightarrow> event list" where
  "new_events w w' = drop (length (trace w)) (trace w')"

fun is_exchange :: "event \<Rightarrow> bool" where
  "is_exchange (UpdateOne tid m) = True"
| "is_exchange (Post model_id history) = True"
| "is_exchange e = False"

text \<open>
  The appends and requests of one handler run are in order when they are none at all, or the
  append of a user entry followed by the request whose history ends with that entry, or
  those two followed by the append of an assistant entry to the same thread.
\<close>

fun exchange_in_order :: "event list \<Rightarrow> bool" where
  "exchange_in_order [] = True"
| "exchange_in_order [UpdateOne t u, Post model_id h] =
     (role u = ''user'' \<and> h \<noteq> [] \<and> last h = u)"
| "exchange_in_order [UpdateOne t u, Post model_id h, UpdateOne t' a] =
     (t' = t \<and> role u = ''user'' \<and> h \<noteq> [] \<and> last h = u \<and> role a = ''assistant'')"
| "exchange_in_order evs = False"

text \<open>A text in which the token \<open>tok\<close> follows each of the segments \<open>segs\<close>.\<close>

fun with_mentions :: "string \<Rightarrow> string list \<Rightarrow> string \<Rightarrow> string" where
  "with_mentions tok [] rest = rest"
| "with_mentions tok (s # ss) rest = s @ tok @ with_mentions tok ss rest"

section \<open>Sample data\<close>

text \<open>
  The reply envelope of the inference API: the generated text under
  \<^verbatim>\<open>["result"]["response"]\<close>, next to \<^verbatim>\<open>success\<close>, \<^verbatim>\<open>errors\<close> and
  \<^verbatim>\<open>messages\<close>; and the envelope of a failed run, whose \<^verbatim>\<open>result\<close> is null.
\<close>

definition envelope :: "pyval \<Rightarrow> pyval" where
  "envelope v = PDict [(''result'', PDict [(''response'', v)]), (''success'', PBool True),
                       (''errors'', PList []), (''messages'', PList [])]"

definition failed_envelope :: pyval where
  "failed_envelope = PDict [(''result'', PNone), (''success'', PBool False),
                            (''errors'', PList [PStr ''fail'']), (''messages'', PList [])]"

definition mock :: "pyval \<Rightarrow> service" where
  "mock v = (\<lambda>model_id history. Inr (envelope v))"

text \<open>A reply that carries the generated text and nothing else.\<close>

definition bare :: "pyval \<Rightarrow> service" where
  "bare v = (\<lambda>model_id history. Inr (PDict [(''result'', PDict [(''response'', v)])]))"

definition unreachable :: service where
  "unreachable = (\<lambda>model_id history. Inl ClientError)"

definition broken :: service where
  "broken = (\<lambda>model_id history. Inr failed_envelope)"

definition sample_world :: world where
  "sample_world = \<lparr>conversations = [], session_ready = True, mention = ''<@1>'', trace = []\<rparr>"

definition user_says :: "string \<Rightarrow> int \<Rightarrow> inbound" where
  "user_says txt tid =
     \<lparr>msg_author_bot = False, msg_mentioned = True, msg_content = txt, msg_channel_id = tid\<rparr>"

definition user_msg :: "string \<Rightarrow> message" where
  "user_msg txt = \<lparr>role = ''user'', content = PStr txt\<rparr>"

definition assistant_msg :: "pyval \<Rightarrow> message" where
  "assistant_msg v = \<lparr>role = ''assistant'', content = v\<rparr>"

definition scenario_world :: world where
  "scenario_world = sample_world\<lparr>conversations :=
     [\<lparr>thread_id = 7,
       messages = [system_entry, user_msg ''hello'', assistant_msg (PStr ''sup'')],
       model = ''@cf/meta/llama-2-7b-chat-int8''\<rparr>]\<rparr>"

section \<open>The store operations\<close>

lemma find_one_update_same:
  "find_one c tid = Some d \<Longrightarrow>
   find_one (update_one_push c tid m) tid = Some (d\<lparr>messages := messages d @ [m]\<rparr>)"
  by (induction c) (auto simp: find_one_def)

lemma find_one_update_other:
  "tid' \<noteq> tid \<Longrightarrow> find_one (update_one_push c tid m) tid' = find_one c tid'"
  by (induction c) (auto simp: find_one_def)

lemma update_one_push_absent:
  "find_one c tid = None \<Longrightarrow> update_one_push c tid m = c"
  by (induction c) (auto simp: find_one_def split: if_splits)

lemma map_thread_id_update: "map thread_id (update_one_push c tid m) = map thread_id c"
  by (induction c) auto

lemma map_model_update: "map model (update_one_push c tid m) = map model c"
  by (induction c) auto

lemma update_one_text:
  "update_one c tid \<lparr>role = r, content = PStr s\<rparr>
     = Inr (update_one_push c tid \<lparr>role = r, content = PStr s\<rparr>)"
  by (simp add: update_one_def)

lemma update_one_overflow:
  "update_one c tid \<lparr>role = r, content = PInt (2 ^ 64)\<rparr> = Inl OverflowError"
  by (simp add: update_one_def)

lemma update_one_Inr:
  "update_one c tid m = Inr c' \<Longrightarrow> c' = update_one_push c tid m"
  by (simp add: update_one_def split: option.splits)

lemma find_one_insert:
  "find_one (insert_one c d) tid =
     (case find_one c tid of Some x \<Rightarrow> Some x
      | None \<Rightarrow> if thread_id d = tid then Some d else None)"
  by (induction c) (auto simp: find_one_def insert_one_def)

lemma str_replace_empty_absent:
  "\<not> sublist old s \<Longrightarrow> str_replace_empty old s = s"
proof (induction old s rule: str_replace_empty.induct)
  case (1 old)
  then show ?case by simp
next
  case (2 old c cs)
  then show ?case by (auto simp: sublist_Cons_right)
qed

lemma str_replace_empty_segment:
  "old \<noteq> [] \<Longrightarrow> \<not> sublist old (seg @ butlast old) \<Longrightarrow>
   str_replace_empty old (seg @ old @ rest) = seg @ str_replace_empty old rest"
proof (induction seg)
  case Nil
  then show ?case by (cases old) auto
next
  case (Cons c seg)
  have np: "\<not> prefix old (c # seg @ old @ rest)"
  proof
    assume p: "prefix old (c # seg @ old @ rest)"
    have split: "c # seg @ old @ rest = (c # seg @ butlast old) @ (last old # rest)"
      using Cons.prems(1) by simp
    have len: "length old \<le> length (c # seg @ butlast old)" by simp
    from p have "old = take (length old) (c # seg @ old @ rest)"
      by (metis append_eq_conv_conj prefixE)
    also have "\<dots> = take (length old) (c # seg @ butlast old)"
      using len by (simp only: split take_append) simp
    finally have "prefix old (c # seg @ butlast old)"
      by (metis take_is_prefix)
    then show False using Cons.prems(2) by auto
  qed
  have "\<not> sublist old (seg @ butlast old)"
    using Cons.prems(2) by (auto simp: sublist_Cons_right)
  with Cons.IH Cons.prems(1) np show ?case by simp
qed

lemma system_first_update:
  "list_all system_first c \<Longrightarrow> list_all system_first (update_one_push c tid m)"
  by (induction c) (auto simp: system_first_def split: list.splits)

lemma system_first_insert:
  "list_all system_first c \<Longrightarrow> system_first d \<Longrightarrow> list_all system_first (insert_one c d)"
  by (simp add: insert_one_def)

section \<open>The outcomes of \<^verbatim>\<open>fetch_response\<close>\<close>

lemma fetch_response_absent:
  "find_one (conversations w) tid = None \<Longrightarrow>
   fetch_response svc model_id msg tid w = (Inr PNone, emit (FindOne tid) w)"
  by (simp add: fetch_response_def emit_def Let_def)

lemma fetch_response_not_ready:
  "\<not> session_ready w \<Longrightarrow>
   fetch_response svc model_id msg tid w = (Inr PNone, emit (FindOne tid) w)"
  by (simp add: fetch_response_def emit_def Let_def split: option.splits)

lemma fetch_response_failure:
  assumes "find_one (conversations w) tid = Some d" and "session_ready w"
    and "u = \<lparr>role = ''user'', content = PStr (str_replace_empty (mention w) msg)\<rparr>"
    and "(case svc model_id (messages d @ [u]) of
            Inl e \<Rightarrow> Inl e
          | Inr reply \<Rightarrow>
              (case subscript reply ''result'' of
                 Inl e \<Rightarrow> Inl e
               | Inr res \<Rightarrow>
                   (case subscript res ''response'' of
                      Inl e \<Rightarrow> Inl e
                    | Inr ai \<Rightarrow>
                        (case subscript reply ''messages'' of
                           Inl e \<Rightarrow> Inl e
                         | Inr ms \<Rightarrow>
                             if has_append ms then Inr ai else Inl AttributeError)))) = Inl err"
  shows "fetch_response svc model_id msg tid w =
           (Inl err, w\<lparr>conversations := update_one_push (conversations w) tid u,
                       trace := trace w @ [FindOne tid, UpdateOne tid u,
                                           Post model_id (messages d @ [u])]\<rparr>)"
  using assms
  by (auto simp: fetch_response_def emit_def Let_def update_one_text
           split: sum.splits if_splits)

lemma fetch_response_success:
  assumes "find_one (conversations w) tid = Some d" and "session_ready w"
    and "u = \<lparr>role = ''user'', content = PStr (str_replace_empty (mention w) msg)\<rparr>"
    and "svc model_id (messages d @ [u]) = Inr reply"
    and "subscript reply ''result'' = Inr res"
    and "subscript res ''response'' = Inr ai"
    and "subscript reply ''messages'' = Inr ms" and "has_append ms"
    and "a = \<lparr>role = ''assistant'', content = ai\<rparr>" and "bson_error ai = None"
  shows "fetch_response svc model_id msg tid w =
           (Inr ai, w\<lparr>conversations :=
                         update_one_push (update_one_push (conversations w) tid u) tid a,
                      trace := trace w @ [FindOne tid, UpdateOne tid u,
                                          Post model_id (messages d @ [u]), UpdateOne tid a]\<rparr>)"
  using assms
  by (auto simp: fetch_response_def emit_def Let_def update_one_text update_one_def
           split: sum.splits)

lemma fetch_response_system_first:
  "list_all system_first (conversations w) \<Longrightarrow>
   list_all system_first (conversations (snd (fetch_response svc model_id msg tid w)))"
  by (auto simp: fetch_response_def emit_def Let_def system_first_update
           dest!: update_one_Inr split: option.splits sum.splits)

lemma fetch_response_thread_ids:
  "map thread_id (conversations (snd (fetch_response svc model_id msg tid w)))
     = map thread_id (conversations w)"
  by (auto simp: fetch_response_def emit_def Let_def map_thread_id_update
           dest!: update_one_Inr split: option.splits sum.splits)

lemma fetch_response_models:
  "map model (conversations (snd (fetch_response svc model_id msg tid w)))
     = map model (conversations w)"
  by (auto simp: fetch_response_def emit_def Let_def map_model_update
           dest!: update_one_Inr split: option.splits sum.splits)

section \<open>The outcomes of the handlers\<close>

lemma callback_True:
  "callback model_name True user_mention new_thread w =
     w\<lparr>conversations := conversations w @
          [\<lparr>thread_id = new_thread, messages = [system_entry], model = model_name\<rparr>],
       trace := trace w @
          [Defer, CreateThread (''Chat with '' @ model_name),
           EditOriginal (PStr (''Hi '' @ user_mention @ ''! You are now chatting with ''
              @ model_name @ ''! @mention me for me to process your message!'')),
           AddUser,
           InsertOne \<lparr>thread_id = new_thread, messages = [system_entry],
                      model = model_name\<rparr>]\<rparr>"
  by (simp add: callback_def emit_def insert_one_def Let_def)

lemma callback_False:
  "callback model_name False user_mention new_thread w =
     w\<lparr>trace := trace w @
          [Defer, FollowupSend ''Something went wrong, please try again later!'']\<rparr>"
  by (simp add: callback_def emit_def Let_def)

lemma on_message_success:
  assumes "find_one (conversations w) (msg_channel_id m) = Some d" and "session_ready w"
    and "\<not> msg_author_bot m" and "msg_mentioned m" and "msg_content m \<noteq> []"
    and "u = \<lparr>role = ''user'', content = PStr (str_replace_empty (mention w) (msg_content m))\<rparr>"
    and "svc (model d) (messages d @ [u]) = Inr reply"
    and "subscript reply ''result'' = Inr res"
    and "subscript res ''response'' = Inr ai"
    and "subscript reply ''messages'' = Inr ms" and "has_append ms"
    and "a = \<lparr>role = ''assistant'', content = ai\<rparr>" and "bson_error ai = None"
    and "ai \<noteq> PNone"
  shows "on_message svc m w =
           (Inr (), w\<lparr>conversations :=
                         update_one_push (update_one_push (conversations w) (msg_channel_id m) u)
                           (msg_channel_id m) a,
                      trace := trace w @ [FindOne (msg_channel_id m), FindOne (msg_channel_id m),
                                          UpdateOne (msg_channel_id m) u,
                                          Post (model d) (messages d @ [u]),
                                          UpdateOne (msg_channel_id m) a, Reply ai]\<rparr>)"
proof -
  let ?w1 = "emit (FindOne (msg_channel_id m)) w"
  have f: "find_one (conversations ?w1) (msg_channel_id m) = Some d"
    and r: "session_ready ?w1"
    and u: "u = \<lparr>role = ''user'',
                 content = PStr (str_replace_empty (mention ?w1) (msg_content m))\<rparr>"
    using assms by (simp_all add: emit_def)
  note fr = fetch_response_success [where svc = svc and model_id = "model d", OF f r u assms(7-13)]
  show ?thesis
    using assms(1,3,4,5,14) by (simp add: on_message_def Let_def fr f) (simp add: emit_def)
qed

lemma on_message_failure:
  assumes "find_one (conversations w) (msg_channel_id m) = Some d" and "session_ready w"
    and "\<not> msg_author_bot m" and "msg_mentioned m" and "msg_content m \<noteq> []"
    and "u = \<lparr>role = ''user'', content = PStr (str_replace_empty (mention w) (msg_content m))\<rparr>"
    and "(case svc (model d) (messages d @ [u]) of
            Inl e \<Rightarrow> Inl e
          | Inr reply \<Rightarrow>
              (case subscript reply ''result'' of
                 Inl e \<Rightarrow> Inl e
               | Inr res \<Rightarrow>
                   (case subscript res ''response'' of
                      Inl e \<Rightarrow> Inl e
                    | Inr ai \<Rightarrow>
                        (case subscript reply ''messages'' of
                           Inl e \<Rightarrow> Inl e
                         | Inr ms \<Rightarrow>
                             if has_append ms then Inr ai else Inl AttributeError)))) = Inl err"
  shows "on_message svc m w =
           (Inl err, w\<lparr>conversations := update_one_push (conversations w) (msg_channel_id m) u,
                       trace := trace w @ [FindOne (msg_channel_id m), FindOne (msg_channel_id m),
                                           UpdateOne (msg_channel_id m) u,
                                           Post (model d) (messages d @ [u])]\<rparr>)"
proof -
  let ?w1 = "emit (FindOne (msg_channel_id m)) w"
  have f: "find_one (conversations ?w1) (msg_channel_id m) = Some d"
    and r: "session_ready ?w1"
    and u: "u = \<lparr>role = ''user'',
                 content = PStr (str_replace_empty (mention ?w1) (msg_content m))\<rparr>"
    using assms by (simp_all add: emit_def)
  note fr = fetch_response_failure [where svc = svc and model_id = "model d", OF f r u assms(7)]
  show ?thesis
    using assms(1,3,4,5) by (simp add: on_message_def Let_def fr f) (simp add: emit_def)
qed

lemma regenerate_success:
  assumes "find_one (conversations w) channel_id = Some d" and "session_ready w"
    and "\<not> msg_author_bot target" and "msg_content target \<noteq> []"
    and "u = \<lparr>role = ''user'',
              content = PStr (str_replace_empty (mention w) (msg_content target))\<rparr>"
    and "svc (model d) (messages d @ [u]) = Inr reply"
    and "subscript reply ''result'' = Inr res"
    and "subscript res ''response'' = Inr ai"
    and "subscript reply ''messages'' = Inr ms" and "has_append ms"
    and "a = \<lparr>role = ''assistant'', content = ai\<rparr>" and "bson_error ai = None"
    and "ai \<noteq> PNone"
  shows "regenerate_response svc channel_id target w =
           (Inr (), w\<lparr>conversations :=
                         update_one_push (update_one_push (conversations w) channel_id u)
                           channel_id a,
                      trace := trace w @ [Defer, FindOne channel_id, FindOne channel_id,
                                          UpdateOne channel_id u,
                                          Post (model d) (messages d @ [u]),
                                          UpdateOne channel_id a, EditOriginal ai]\<rparr>)"
proof -
  let ?w1 = "emit (FindOne channel_id) (emit Defer w)"
  have f: "find_one (conversations ?w1) channel_id = Some d"
    and r: "session_ready ?w1"
    and u: "u = \<lparr>role = ''user'',
                 content = PStr (str_replace_empty (mention ?w1) (msg_content target))\<rparr>"
    using assms by (simp_all add: emit_def)
  note fr = fetch_response_success [where svc = svc and model_id = "model d", OF f r u assms(6-12)]
  show ?thesis
    using assms(1,3,4,13) by (simp add: regenerate_response_def Let_def fr f) (simp add: emit_def)
qed

lemma regenerate_failure:
  assumes "find_one (conversations w) channel_id = Some d" and "session_ready w"
    and "\<not> msg_author_bot target" and "msg_content target \<noteq> []"
    and "u = \<lparr>role = ''user'',
              content = PStr (str_replace_empty (mention w) (msg_content target))\<rparr>"
    and "(case svc (model d) (messages d @ [u]) of
            Inl e \<Rightarrow> Inl e
          | Inr reply \<Rightarrow>
              (case subscript reply ''result'' of
                 Inl e \<Rightarrow> Inl e
               | Inr res \<Rightarrow>
                   (case subscript res ''response'' of
                      Inl e \<Rightarrow> Inl e
                    | Inr ai \<Rightarrow>
                        (case subscript reply ''messages'' of
                           Inl e \<Rightarrow> Inl e
                         | Inr ms \<Rightarrow>
                             if has_append ms then Inr ai else Inl AttributeError)))) = Inl err"
  shows "regenerate_response svc channel_id target w =
           (Inl err, w\<lparr>conversations := update_one_push (conversations w) channel_id u,
                       trace := trace w @ [Defer, FindOne channel_id, FindOne channel_id,
                                           UpdateOne channel_id u,
                                           Post (model d) (messages d @ [u])]\<rparr>)"
proof -
  let ?w1 = "emit (FindOne channel_id) (emit Defer w)"
  have f: "find_one (conversations ?w1) channel_id = Some d"
    and r: "session_ready ?w1"
    and u: "u = \<lparr>role = ''user'',
                 content = PStr (str_replace_empty (mention ?w1) (msg_content target))\<rparr>"
    using assms by (simp_all add: emit_def)
  note fr = fetch_response_failure [where svc = svc and model_id = "model d", OF f r u assms(6)]
  show ?thesis
    using assms(1,3,4) by (simp add: regenerate_response_def Let_def fr f) (simp add: emit_def)
qed

section \<open>Regeneration without a session or on an invalid target\<close>

text \<open>
  Claim C5. Regeneration on a thread for which the store holds no session ends after telling
  the user that the message is not eligible (the no-session notice is the only output), and
  the store is exactly as it was before the invocation.
\<close>

theorem regenerate_no_session:
  assumes "find_one (conversations w) channel_id = None"
  shows "regenerate_response svc channel_id target w =
           (Inr (), w\<lparr>trace := trace w @ [Defer, FindOne channel_id,
                                            EditOriginal (PStr no_session_text)]\<rparr>)
         \<and> conversations (snd (regenerate_response svc channel_id target w)) = conversations w"
  using assms by (simp add: regenerate_response_def emit_def Let_def)

theorem regenerate_no_session_witness:
  "find_one (conversations sample_world) 7 = None
   \<and> regenerate_response (mock (PStr ''yo'')) 7 (user_says ''hello'' 7) sample_world =
       (Inr (), sample_world\<lparr>trace := trace sample_world @ [Defer, FindOne 7,
                                            EditOriginal (PStr no_session_text)]\<rparr>)
   \<and> conversations (snd (regenerate_response (mock (PStr ''yo'')) 7 (user_says ''hello'' 7)
        sample_world)) = []"
proof -
  have h: "find_one (conversations sample_world) 7 = None"
    by (simp add: sample_world_def find_one_def)
  show ?thesis
    using h regenerate_no_session [OF h, of "mock (PStr ''yo'')" "user_says ''hello'' 7"]
    by (simp add: sample_world_def)
qed

text \<open>
  Claim C6. When a session exists for the thread and the target message was written by a bot
  or has empty content, regeneration ends after the invalid-target notice, and the store is
  exactly as it was before the invocation.
\<close>

theorem regenerate_invalid_target:
  assumes "find_one (conversations w) channel_id = Some d"
    and "msg_author_bot target \<or> msg_content target = []"
  shows "regenerate_response svc channel_id target w =
           (Inr (), w\<lparr>trace := trace w @ [Defer, FindOne channel_id,
                                            EditOriginal (PStr invalid_target_text)]\<rparr>)
         \<and> conversations (snd (regenerate_response svc channel_id target w)) = conversations w"
  using assms by (auto simp: regenerate_response_def emit_def Let_def)

theorem regenerate_invalid_target_witness:
  "find_one (conversations scenario_world) 7 = Some (hd (conversations scenario_world))
   \<and> msg_author_bot ((user_says ''sup'' 7)\<lparr>msg_author_bot := True\<rparr>)
   \<and> regenerate_response (mock (PStr ''yo'')) 7
        ((user_says ''sup'' 7)\<lparr>msg_author_bot := True\<rparr>) scenario_world =
       (Inr (), scenario_world\<lparr>trace := [Defer, FindOne 7,
                                            EditOriginal (PStr invalid_target_text)]\<rparr>)
   \<and> conversations (snd (regenerate_response (mock (PStr ''yo'')) 7
        ((user_says ''sup'' 7)\<lparr>msg_author_bot := True\<rparr>) scenario_world))
       = conversations scenario_world"
proof -
  have h: "find_one (conversations scenario_world) 7 = Some (hd (conversations scenario_world))"
    by (simp add: scenario_world_def sample_world_def find_one_def)
  have b: "msg_author_bot ((user_says ''sup'' 7)\<lparr>msg_author_bot := True\<rparr>)
           \<or> msg_content ((user_says ''sup'' 7)\<lparr>msg_author_bot := True\<rparr>) = []"
    by simp
  show ?thesis
    using h regenerate_invalid_target [OF h b, of "mock (PStr ''yo'')"]
    by (simp add: scenario_world_def sample_world_def)
qed

section \<open>A message in a bound thread\<close>

lemma subscript_missing:
  "subscript body k = Inr v \<Longrightarrow> subscript body k' = Inl err \<Longrightarrow> err = KeyError"
  by (cases body) (auto split: option.splits)

text \<open>
  Claim C1 (scenario A), on a reply that carries the generated text and nothing else. A
  session is created for model \<open>M1\<close> in a thread that had none, so its history is the
  system entry alone. A user message \<open>hello\<close> that addresses the bot is then handled, and
  the inference reply has \<open>sup\<close> under \<^verbatim>\<open>["result"]["response"]\<close> and no entry
  \<^verbatim>\<open>"messages"\<close>. The text is read from the reply, but the \<^verbatim>\<open>data["messages"]\<close> that
  follows looks in the reply and raises \<^verbatim>\<open>KeyError\<close>. So \<open>fetch_response\<close> returns
  nothing, the handler ends in the exception without a reply, and the stored history is the
  system entry and the user entry \<open>hello\<close>: the assistant entry \<open>sup\<close> of the scenario
  is never stored.
\<close>

theorem scenario_A_reply_without_messages:
  assumes fresh: "find_one (conversations w) tid = None"
    and ready: "session_ready w"
    and plain: "\<not> sublist (mention w) ''hello''"
    and reply: "svc M1 [system_entry, user_msg ''hello''] = Inr body"
    and res: "subscript body ''result'' = Inr res"
    and rsp: "subscript res ''response'' = Inr (PStr ''sup'')"
    and ms: "subscript body ''messages'' = Inl err"
    and w1: "w1 = callback M1 True who tid w"
  shows "find_one (conversations w1) tid
           = Some \<lparr>thread_id = tid, messages = [system_entry], model = M1\<rparr>
         \<and> err = KeyError
         \<and> fst (fetch_response svc M1 ''hello'' tid w1) = Inl KeyError
         \<and> fst (on_message svc (user_says ''hello'' tid) w1) = Inl KeyError
         \<and> find_one (conversations (snd (on_message svc (user_says ''hello'' tid) w1))) tid
           = Some \<lparr>thread_id = tid, messages = [system_entry, user_msg ''hello''], model = M1\<rparr>
         \<and> new_events w1 (snd (on_message svc (user_says ''hello'' tid) w1))
           = [FindOne tid, FindOne tid, UpdateOne tid (user_msg ''hello''),
              Post M1 [system_entry, user_msg ''hello'']]"
proof -
  let ?d = "\<lparr>thread_id = tid, messages = [system_entry], model = M1\<rparr>"
  let ?m = "user_says ''hello'' tid"
  have f: "find_one (conversations w1) tid = Some ?d"
    using fresh by (simp add: w1 callback_True find_one_insert [unfolded insert_one_def])
  have r: "session_ready w1" and mw: "mention w1 = mention w"
    using ready by (simp_all add: w1 callback_True)
  have u: "user_msg ''hello''
             = \<lparr>role = ''user'', content = PStr (str_replace_empty (mention w1) ''hello'')\<rparr>"
    by (simp only: user_msg_def mw str_replace_empty_absent [OF plain])
  have k: "err = KeyError"
    using res ms by (rule subscript_missing)
  have fl: "(case svc (model ?d) (messages ?d @ [user_msg ''hello'']) of
              Inl e \<Rightarrow> Inl e
            | Inr reply \<Rightarrow>
                (case subscript reply ''result'' of
                   Inl e \<Rightarrow> Inl e
                 | Inr res \<Rightarrow>
                     (case subscript res ''response'' of
                        Inl e \<Rightarrow> Inl e
                      | Inr ai \<Rightarrow>
                          (case subscript reply ''messages'' of
                             Inl e \<Rightarrow> Inl e
                           | Inr ms \<Rightarrow>
                               if has_append ms then Inr ai else Inl AttributeError))))
            = Inl KeyError"
    using reply res rsp ms k by simp
  have fr: "fst (fetch_response svc M1 ''hello'' tid w1) = Inl KeyError"
    using fetch_response_failure [where svc = svc and model_id = M1 and msg = "''hello''"
        and d = ?d and err = KeyError, OF f r u] fl
    by simp
  have om: "on_message svc ?m w1 =
              (Inl KeyError,
               w1\<lparr>conversations := update_one_push (conversations w1) tid (user_msg ''hello''),
                  trace := trace w1 @ [FindOne tid, FindOne tid, UpdateOne tid (user_msg ''hello''),
                     Post M1 [system_entry, user_msg ''hello'']]\<rparr>)"
    using on_message_failure [where svc = svc and m = ?m and w = w1 and d = ?d
        and u = "user_msg ''hello''" and err = KeyError] f r u fl
    by (simp add: user_says_def)
  have st: "find_one (update_one_push (conversations w1) tid (user_msg ''hello'')) tid
            = Some \<lparr>thread_id = tid, messages = [system_entry, user_msg ''hello''], model = M1\<rparr>"
    using find_one_update_same [OF f] by simp
  show ?thesis
    using f k st by (simp add: om fr new_events_def)
qed

theorem scenario_A_reply_without_messages_witness:
  "find_one (conversations sample_world) 7 = None
   \<and> session_ready sample_world
   \<and> \<not> sublist (mention sample_world) ''hello''
   \<and> bare (PStr ''sup'') ''@cf/meta/llama-2-7b-chat-fp16'' [system_entry, user_msg ''hello'']
       = Inr (PDict [(''result'', PDict [(''response'', PStr ''sup'')])])
   \<and> fst (fetch_response (bare (PStr ''sup'')) ''@cf/meta/llama-2-7b-chat-fp16'' ''hello'' 7
          (callback ''@cf/meta/llama-2-7b-chat-fp16'' True ''<@42>'' 7 sample_world))
       = Inl KeyError
   \<and> fst (on_message (bare (PStr ''sup'')) (user_says ''hello'' 7)
          (callback ''@cf/meta/llama-2-7b-chat-fp16'' True ''<@42>'' 7 sample_world))
       = Inl KeyError
   \<and> find_one (conversations (snd (on_message (bare (PStr ''sup'')) (user_says ''hello'' 7)
          (callback ''@cf/meta/llama-2-7b-chat-fp16'' True ''<@42>'' 7 sample_world)))) 7
       = Some \<lparr>thread_id = 7, messages = [system_entry, user_msg ''hello''],
               model = ''@cf/meta/llama-2-7b-chat-fp16''\<rparr>
   \<and> new_events (callback ''@cf/meta/llama-2-7b-chat-fp16'' True ''<@42>'' 7 sample_world)
        (snd (on_message (bare (PStr ''sup'')) (user_says ''hello'' 7)
          (callback ''@cf/meta/llama-2-7b-chat-fp16'' True ''<@42>'' 7 sample_world)))
       = [FindOne 7, FindOne 7, UpdateOne 7 (user_msg ''hello''),
          Post ''@cf/meta/llama-2-7b-chat-fp16'' [system_entry, user_msg ''hello'']]"
proof -
  let ?body = "PDict [(''result'', PDict [(''response'', PStr ''sup'')])]"
  have h1: "find_one (conversations sample_world) 7 = None"
    by (simp add: sample_world_def find_one_def)
  have h2: "session_ready sample_world"
    by (simp add: sample_world_def)
  have h3: "\<not> sublist (mention sample_world) ''hello''"
    by (simp add: sample_world_def sublist_Cons_right)
  have h4: "bare (PStr ''sup'') ''@cf/meta/llama-2-7b-chat-fp16''
              [system_entry, user_msg ''hello''] = Inr ?body"
    by (simp add: bare_def)
  have h5: "subscript ?body ''result'' = Inr (PDict [(''response'', PStr ''sup'')])"
    by simp
  have h6: "subscript (PDict [(''response'', PStr ''sup'')]) ''response'' = Inr (PStr ''sup'')"
    by simp
  have h7: "subscript ?body ''messages'' = Inl KeyError"
    by simp
  note th = scenario_A_reply_without_messages [where svc = "bare (PStr ''sup'')"
      and who = "''<@42>''", OF h1 h2 h3 h4 h5 h6 h7 refl]
  show ?thesis
    using h1 h2 h3 h4 th by simp
qed

text \<open>
  Claim C4, as stated, fails on a reply that is unusable without raising. The session of
  thread 7 exists and the user sends \<open>again\<close>; the reply is the envelope of the service
  with \<^verbatim>\<open>null\<close> under \<^verbatim>\<open>["result"]["response"]\<close>. The handler checks nothing about the
  payload: an assistant entry whose content is \<^verbatim>\<open>None\<close> is appended to the stored
  history, and only the reply to the user is left out.
\<close>

theorem null_response_appends_assistant:
  "fst (on_message (mock PNone) (user_says ''again'' 7) scenario_world) = Inr ()
   \<and> find_one (conversations (snd (on_message (mock PNone) (user_says ''again'' 7)
          scenario_world))) 7
       = Some \<lparr>thread_id = 7,
               messages = [system_entry, user_msg ''hello'', assistant_msg (PStr ''sup''),
                           user_msg ''again'', assistant_msg PNone],
               model = ''@cf/meta/llama-2-7b-chat-int8''\<rparr>
   \<and> new_events scenario_world (snd (on_message (mock PNone) (user_says ''again'' 7)
          scenario_world))
       = [FindOne 7, FindOne 7, UpdateOne 7 (user_msg ''again''),
          Post ''@cf/meta/llama-2-7b-chat-int8''
            [system_entry, user_msg ''hello'', assistant_msg (PStr ''sup''), user_msg ''again''],
          UpdateOne 7 (assistant_msg PNone)]"
  by (simp add: on_message_def fetch_response_def update_one_def emit_def Let_def find_one_def
        scenario_world_def sample_world_def user_says_def mock_def envelope_def user_msg_def
        assistant_msg_def new_events_def)

text \<open>
  Claim C4, amended. The session exists and the user's message is handled, but the inference
  call fails with an exception: the request raises (the service is unreachable), or the reply
  has no \<^verbatim>\<open>result\<close>, or its \<^verbatim>\<open>result\<close> has no \<^verbatim>\<open>response\<close>. Then the handler ends
  in that exception without a reply, and the stored history is the old one followed by the
  user entry only: no assistant entry is appended.
\<close>

theorem inference_failure_no_assistant:
  assumes "find_one (conversations w) (msg_channel_id m) = Some d" and "session_ready w"
    and "\<not> msg_author_bot m" and "msg_mentioned m" and "msg_content m \<noteq> []"
    and "u = \<lparr>role = ''user'', content = PStr (str_replace_empty (mention w) (msg_content m))\<rparr>"
    and "svc (model d) (messages d @ [u]) = Inl err
         \<or> (\<exists>reply. svc (model d) (messages d @ [u]) = Inr reply
               \<and> (subscript reply ''result'' = Inl err
                    \<or> (\<exists>res. subscript reply ''result'' = Inr res
                          \<and> subscript res ''response'' = Inl err)))"
    and "w' = snd (on_message svc m w)"
  shows "fst (on_message svc m w) = Inl err
         \<and> find_one (conversations w') (msg_channel_id m)
             = Some (d\<lparr>messages := messages d @ [u]\<rparr>)
         \<and> conversations w' = update_one_push (conversations w) (msg_channel_id m) u
         \<and> new_events w w' = [FindOne (msg_channel_id m), FindOne (msg_channel_id m),
                               UpdateOne (msg_channel_id m) u,
                               Post (model d) (messages d @ [u])]"
proof -
  have fl: "(case svc (model d) (messages d @ [u]) of
              Inl e \<Rightarrow> Inl e
            | Inr reply \<Rightarrow>
                (case subscript reply ''result'' of
                   Inl e \<Rightarrow> Inl e
                 | Inr res \<Rightarrow>
                     (case subscript res ''response'' of
                        Inl e \<Rightarrow> Inl e
                      | Inr ai \<Rightarrow>
                          (case subscript reply ''messages'' of
                             Inl e \<Rightarrow> Inl e
                           | Inr ms \<Rightarrow>
                               if has_append ms then Inr ai else Inl AttributeError))))
            = Inl err"
    using assms(7) by auto
  note om = on_message_failure [where svc = svc, OF assms(1-6) fl]
  show ?thesis
    using find_one_update_same [OF assms(1), of u]
    by (simp add: assms(8) om new_events_def)
qed

theorem inference_failure_no_assistant_witness:
  "find_one (conversations scenario_world) 7 = Some (hd (conversations scenario_world))
   \<and> session_ready scenario_world
   \<and> fst (on_message unreachable (user_says ''again'' 7) scenario_world) = Inl ClientError
   \<and> find_one (conversations (snd (on_message unreachable (user_says ''again'' 7)
          scenario_world))) 7
       = Some \<lparr>thread_id = 7,
               messages = [system_entry, user_msg ''hello'', assistant_msg (PStr ''sup''),
                           user_msg ''again''],
               model = ''@cf/meta/llama-2-7b-chat-int8''\<rparr>
   \<and> fst (on_message broken (user_says ''again'' 7) scenario_world) = Inl TypeError
   \<and> find_one (conversations (snd (on_message broken (user_says ''again'' 7)
          scenario_world))) 7
       = Some \<lparr>thread_id = 7,
               messages = [system_entry, user_msg ''hello'', assistant_msg (PStr ''sup''),
                           user_msg ''again''],
               model = ''@cf/meta/llama-2-7b-chat-int8''\<rparr>"
proof -
  let ?m = "user_says ''again'' 7"
  let ?d = "hd (conversations scenario_world)"
  let ?h = "messages ?d @ [user_msg ''again'']"
  have h1: "find_one (conversations scenario_world) (msg_channel_id ?m) = Some ?d"
    by (simp add: scenario_world_def sample_world_def find_one_def user_says_def)
  have h2: "session_ready scenario_world"
    by (simp add: scenario_world_def sample_world_def)
  have h3: "\<not> msg_author_bot ?m" and h4: "msg_mentioned ?m" and h5: "msg_content ?m \<noteq> []"
    by (simp_all add: user_says_def)
  have h6: "user_msg ''again'' = \<lparr>role = ''user'',
              content = PStr (str_replace_empty (mention scenario_world) (msg_content ?m))\<rparr>"
    by (simp add: user_msg_def scenario_world_def sample_world_def user_says_def)
  have f1: "unreachable (model ?d) ?h = Inl ClientError
            \<or> (\<exists>reply. unreachable (model ?d) ?h = Inr reply
                  \<and> (subscript reply ''result'' = Inl ClientError
                       \<or> (\<exists>res. subscript reply ''result'' = Inr res
                             \<and> subscript res ''response'' = Inl ClientError)))"
    by (simp add: unreachable_def)
  have f2: "broken (model ?d) ?h = Inl TypeError
            \<or> (\<exists>reply. broken (model ?d) ?h = Inr reply
                  \<and> (subscript reply ''result'' = Inl TypeError
                       \<or> (\<exists>res. subscript reply ''result'' = Inr res
                             \<and> subscript res ''response'' = Inl TypeError)))"
    by (simp add: broken_def failed_envelope_def)
  have d: "?d\<lparr>messages := messages ?d @ [user_msg ''again'']\<rparr>
           = \<lparr>thread_id = 7,
               messages = [system_entry, user_msg ''hello'', assistant_msg (PStr ''sup''),
                           user_msg ''again''],
               model = ''@cf/meta/llama-2-7b-chat-int8''\<rparr>"
    by (simp add: scenario_world_def sample_world_def)
  have c: "msg_channel_id ?m = 7" by (simp add: user_says_def)
  note t1 = inference_failure_no_assistant [where svc = unreachable, OF h1 h2 h3 h4 h5 h6 f1 refl]
  note t2 = inference_failure_no_assistant [where svc = broken, OF h1 h2 h3 h4 h5 h6 f2 refl]
  show ?thesis
    using h1 h2 t1 [THEN conjunct1] t1 [THEN conjunct2, THEN conjunct1]
      t2 [THEN conjunct1] t2 [THEN conjunct2, THEN conjunct1]
    unfolding d c by simp
qed

section \<open>Regeneration\<close>

text \<open>
  Claim C7 (scenario B), on a reply that carries the generated text and nothing else. A
  session exists, the target is a user's message with text, and the inference reply has a
  text under \<^verbatim>\<open>["result"]["response"]\<close> and no entry \<^verbatim>\<open>"messages"\<close>. As in scenario A the
  \<^verbatim>\<open>data["messages"]\<close> after the request raises \<^verbatim>\<open>KeyError\<close>: the handler ends in the
  exception, the stored history is the old one followed by the new user entry, without the
  new assistant entry, and the displayed message is not edited. With the history of scenario
  A, the target \<open>hello\<close> and the reply \<open>yo\<close> the stored history is system, user
  \<open>hello\<close>, assistant \<open>sup\<close>, user \<open>hello\<close>.
\<close>

theorem scenario_B_reply_without_messages:
  assumes "find_one (conversations w) channel_id = Some d" and "session_ready w"
    and "\<not> msg_author_bot target" and "msg_content target \<noteq> []"
    and "u = \<lparr>role = ''user'',
              content = PStr (str_replace_empty (mention w) (msg_content target))\<rparr>"
    and "svc (model d) (messages d @ [u]) = Inr body"
    and "subscript body ''result'' = Inr res"
    and "subscript res ''response'' = Inr ai"
    and "subscript body ''messages'' = Inl err"
    and "w' = snd (regenerate_response svc channel_id target w)"
  shows "err = KeyError
         \<and> fst (regenerate_response svc channel_id target w) = Inl KeyError
         \<and> find_one (conversations w') channel_id
             = Some (d\<lparr>messages := messages d @ [u]\<rparr>)
         \<and> conversations w' = update_one_push (conversations w) channel_id u
         \<and> new_events w w' = [Defer, FindOne channel_id, FindOne channel_id,
                               UpdateOne channel_id u, Post (model d) (messages d @ [u])]"
proof -
  have k: "err = KeyError"
    using assms(7,9) by (rule subscript_missing)
  have fl: "(case svc (model d) (messages d @ [u]) of
              Inl e \<Rightarrow> Inl e
            | Inr reply \<Rightarrow>
                (case subscript reply ''result'' of
                   Inl e \<Rightarrow> Inl e
                 | Inr res \<Rightarrow>
                     (case subscript res ''response'' of
                        Inl e \<Rightarrow> Inl e
                      | Inr ai \<Rightarrow>
                          (case subscript reply ''messages'' of
                             Inl e \<Rightarrow> Inl e
                           | Inr ms \<Rightarrow>
                               if has_append ms then Inr ai else Inl AttributeError))))
            = Inl KeyError"
    using assms(6-9) k by simp
  note rg = regenerate_failure [where svc = svc, OF assms(1-5) fl]
  show ?thesis
    using k find_one_update_same [OF assms(1), of u]
    by (simp add: assms(10) rg new_events_def)
qed

theorem scenario_B_reply_without_messages_witness:
  "find_one (conversations scenario_world) 7
     = Some \<lparr>thread_id = 7,
             messages = [system_entry, user_msg ''hello'', assistant_msg (PStr ''sup'')],
             model = ''@cf/meta/llama-2-7b-chat-int8''\<rparr>
   \<and> session_ready scenario_world
   \<and> fst (regenerate_response (bare (PStr ''yo'')) 7 (user_says ''hello'' 7) scenario_world)
       = Inl KeyError
   \<and> find_one (conversations (snd (regenerate_response (bare (PStr ''yo'')) 7
          (user_says ''hello'' 7) scenario_world))) 7
       = Some \<lparr>thread_id = 7,
               messages = [system_entry, user_msg ''hello'', assistant_msg (PStr ''sup''),
                           user_msg ''hello''],
               model = ''@cf/meta/llama-2-7b-chat-int8''\<rparr>
   \<and> new_events scenario_world (snd (regenerate_response (bare (PStr ''yo'')) 7
          (user_says ''hello'' 7) scenario_world))
       = [Defer, FindOne 7, FindOne 7, UpdateOne 7 (user_msg ''hello''),
          Post ''@cf/meta/llama-2-7b-chat-int8''
            [system_entry, user_msg ''hello'', assistant_msg (PStr ''sup''), user_msg ''hello'']]"
proof -
  let ?t = "user_says ''hello'' 7"
  let ?d = "\<lparr>thread_id = 7,
             messages = [system_entry, user_msg ''hello'', assistant_msg (PStr ''sup'')],
             model = ''@cf/meta/llama-2-7b-chat-int8''\<rparr>"
  let ?body = "PDict [(''result'', PDict [(''response'', PStr ''yo'')])]"
  have h1: "find_one (conversations scenario_world) 7 = Some ?d"
    by (simp add: scenario_world_def sample_world_def find_one_def)
  have h2: "session_ready scenario_world"
    by (simp add: scenario_world_def sample_world_def)
  have h3: "\<not> msg_author_bot ?t" and h4: "msg_content ?t \<noteq> []"
    by (simp_all add: user_says_def)
  have h5: "user_msg ''hello'' = \<lparr>role = ''user'',
              content = PStr (str_replace_empty (mention scenario_world) (msg_content ?t))\<rparr>"
    by (simp add: user_msg_def scenario_world_def sample_world_def user_says_def)
  have h6: "bare (PStr ''yo'') (model ?d) (messages ?d @ [user_msg ''hello'']) = Inr ?body"
    by (simp add: bare_def)
  have h7: "subscript ?body ''result'' = Inr (PDict [(''response'', PStr ''yo'')])"
    by simp
  have h8: "subscript (PDict [(''response'', PStr ''yo'')]) ''response'' = Inr (PStr ''yo'')"
    by simp
  have h9: "subscript ?body ''messages'' = Inl KeyError"
    by simp
  note th = scenario_B_reply_without_messages [where svc = "bare (PStr ''yo'')",
      OF h1 h2 h3 h4 h5 h6 h7 h8 h9 refl]
  show ?thesis
    using h1 h2 th [THEN conjunct2, THEN conjunct1]
      th [THEN conjunct2, THEN conjunct2, THEN conjunct1]
      th [THEN conjunct2, THEN conjunct2, THEN conjunct2, THEN conjunct2]
    by simp
qed

section \<open>The system entry, the thread and the model of a session\<close>

lemma emit_fields:
  "conversations (emit e w) = conversations w"
  "session_ready (emit e w) = session_ready w"
  "mention (emit e w) = mention w"
  "trace (emit e w) = trace w @ [e]"
  by (simp_all add: emit_def)

lemma callback_system_first:
  "list_all system_first (conversations w) \<Longrightarrow>
   list_all system_first (conversations (callback model_name has_message user_mention tid w))"
  by (cases has_message) (simp_all add: callback_True callback_False system_first_def)

lemma on_message_system_first:
  assumes a: "list_all system_first (conversations w)"
  shows "list_all system_first (conversations (snd (on_message svc m w)))"
proof -
  have k: "list_all system_first (conversations (snd (fetch_response svc model_id
             (msg_content m) (msg_channel_id m) (emit (FindOne (msg_channel_id m)) w))))"
    for model_id
    using a by (intro fetch_response_system_first) (simp add: emit_fields)
  show ?thesis
    using a
    by (simp add: on_message_def Let_def case_prod_beta emit_fields k
             split: option.splits sum.splits)
qed

lemma regenerate_system_first:
  assumes a: "list_all system_first (conversations w)"
  shows "list_all system_first (conversations (snd (regenerate_response svc channel_id target w)))"
proof -
  have k: "list_all system_first (conversations (snd (fetch_response svc model_id
             (msg_content target) channel_id (emit (FindOne channel_id) (emit Defer w)))))"
    for model_id
    using a by (intro fetch_response_system_first) (simp add: emit_fields)
  show ?thesis
    using a
    by (simp add: regenerate_response_def Let_def case_prod_beta emit_fields k
             split: option.splits sum.splits)
qed

lemma step_system_first:
  "list_all system_first (conversations w) \<Longrightarrow> list_all system_first (conversations (step a w))"
  by (cases a) (simp_all add: callback_system_first on_message_system_first regenerate_system_first)

lemma run_system_first:
  "list_all system_first (conversations w) \<Longrightarrow> list_all system_first (conversations (run acts w))"
  by (induction acts arbitrary: w) (simp_all add: step_system_first)

lemma system_first_hd:
  "system_first d \<Longrightarrow>
   messages d \<noteq> [] \<and> hd (messages d) = system_entry \<and> role (hd (messages d)) = ''system''"
  by (cases "messages d") (simp_all add: system_first_def system_entry_def)

text \<open>
  Claim C2. Creation stores a document whose history is the system entry alone, with the
  fixed persona text. If every stored history starts with the system entry, then after any
  sequence of bindings, inbound messages and regenerations, whatever the inference service
  answers, every stored history still starts with the system entry, whose role is
  \<open>system\<close>.
\<close>

theorem system_entry_stays_first:
  assumes "list_all system_first (conversations w)"
  shows "list_all system_first (conversations (run acts w))
         \<and> (\<forall>d \<in> set (conversations (run acts w)).
               messages d \<noteq> [] \<and> hd (messages d) = system_entry
               \<and> role (hd (messages d)) = ''system'')
         \<and> last (conversations (callback model_name True who tid w))
             = \<lparr>thread_id = tid, messages = [system_entry], model = model_name\<rparr>"
proof -
  have r: "list_all system_first (conversations (run acts w))"
    using assms by (rule run_system_first)
  have "\<forall>d \<in> set (conversations (run acts w)).
          messages d \<noteq> [] \<and> hd (messages d) = system_entry
          \<and> role (hd (messages d)) = ''system''"
    using r by (auto simp: list_all_iff dest: system_first_hd)
  moreover have "last (conversations (callback model_name True who tid w))
                  = \<lparr>thread_id = tid, messages = [system_entry], model = model_name\<rparr>"
    by (simp add: callback_True)
  ultimately show ?thesis
    using r by blast
qed

theorem system_entry_stays_first_witness:
  "list_all system_first (conversations sample_world)
   \<and> list_all system_first (conversations (run
        [Bind ''@cf/meta/llama-2-7b-chat-fp16'' True ''<@42>'' 7,
         Inbound (mock (PStr ''sup'')) (user_says ''hello'' 7),
         Regenerate (mock (PStr ''yo'')) 7 (user_says ''hello'' 7),
         Inbound unreachable (user_says ''again'' 7)] sample_world))
   \<and> last (conversations (callback ''@cf/meta/llama-2-7b-chat-fp16'' True ''<@42>'' 7
        sample_world))
       = \<lparr>thread_id = 7, messages = [system_entry],
          model = ''@cf/meta/llama-2-7b-chat-fp16''\<rparr>"
proof -
  have h: "list_all system_first (conversations sample_world)"
    by (simp add: sample_world_def)
  show ?thesis
    using h system_entry_stays_first [OF h,
      of "[Bind ''@cf/meta/llama-2-7b-chat-fp16'' True ''<@42>'' 7,
           Inbound (mock (PStr ''sup'')) (user_says ''hello'' 7),
           Regenerate (mock (PStr ''yo'')) 7 (user_says ''hello'' 7),
           Inbound unreachable (user_says ''again'' 7)]"
         "''@cf/meta/llama-2-7b-chat-fp16''" "''<@42>''" 7]
    by blast
qed

text \<open>
  Claim C8. Handling an inbound message or a regeneration leaves the \<open>thread_id\<close> and the
  \<open>model\<close> of every stored document, position by position, as they were: only histories
  change.
\<close>

theorem appends_keep_thread_and_model:
  "map thread_id (conversations (snd (on_message svc m w))) = map thread_id (conversations w)
   \<and> map model (conversations (snd (on_message svc m w))) = map model (conversations w)
   \<and> map thread_id (conversations (snd (regenerate_response svc channel_id target w)))
       = map thread_id (conversations w)
   \<and> map model (conversations (snd (regenerate_response svc channel_id target w)))
       = map model (conversations w)"
  by (simp add: on_message_def regenerate_response_def Let_def case_prod_beta emit_fields
        fetch_response_thread_ids fetch_response_models
      split: option.splits sum.splits)

theorem appends_keep_thread_and_model_witness:
  "map thread_id (conversations (snd (on_message (mock (PStr ''yo'')) (user_says ''again'' 7)
       scenario_world))) = [7]
   \<and> map model (conversations (snd (on_message (mock (PStr ''yo'')) (user_says ''again'' 7)
       scenario_world))) = [''@cf/meta/llama-2-7b-chat-int8'']
   \<and> map thread_id (conversations (snd (regenerate_response (mock (PStr ''yo'')) 7
       (user_says ''hello'' 7) scenario_world))) = [7]
   \<and> map model (conversations (snd (regenerate_response (mock (PStr ''yo'')) 7
       (user_says ''hello'' 7) scenario_world))) = [''@cf/meta/llama-2-7b-chat-int8'']"
  using appends_keep_thread_and_model [where svc = "mock (PStr ''yo'')"
          and m = "user_says ''again'' 7" and w = scenario_world and channel_id = 7
          and target = "user_says ''hello'' 7"]
  by (simp add: scenario_world_def sample_world_def)

section \<open>The order of appends and requests\<close>

lemma fetch_response_trace:
  "\<exists>evs. trace (snd (fetch_response svc model_id msg tid w)) = trace w @ FindOne tid # evs
         \<and> filter is_exchange evs = evs \<and> exchange_in_order evs"
  by (auto simp: fetch_response_def emit_def Let_def update_one_text
           split: option.splits sum.splits)

lemma on_message_trace:
  "\<exists>evs. trace (snd (on_message svc m w)) = trace w @ evs
         \<and> exchange_in_order (filter is_exchange evs)"
proof -
  let ?w1 = "emit (FindOne (msg_channel_id m)) w"
  have k: "\<exists>evs. trace (snd (fetch_response svc model_id (msg_content m) (msg_channel_id m) ?w1))
                  = trace w @ FindOne (msg_channel_id m) # FindOne (msg_channel_id m) # evs
                \<and> filter is_exchange evs = evs \<and> exchange_in_order evs" for model_id
    using fetch_response_trace [of svc model_id "msg_content m" "msg_channel_id m" ?w1]
    by (simp add: emit_fields)
  show ?thesis
  proof (cases "msg_author_bot m \<or> \<not> msg_mentioned m \<or> msg_content m = []")
    case True
    then show ?thesis by (auto simp: on_message_def emit_fields)
  next
    case False
    show ?thesis
    proof (cases "find_one (conversations w) (msg_channel_id m)")
      case None
      with False show ?thesis by (auto simp: on_message_def Let_def emit_fields)
    next
      case (Some d)
      from k [of "model d"] obtain evs where
        t: "trace (snd (fetch_response svc (model d) (msg_content m) (msg_channel_id m) ?w1))
              = trace w @ FindOne (msg_channel_id m) # FindOne (msg_channel_id m) # evs"
        and f: "filter is_exchange evs = evs" and o: "exchange_in_order evs"
        by blast
      from False Some t f o show ?thesis
        by (auto simp: on_message_def Let_def case_prod_beta emit_fields split: sum.splits)
    qed
  qed
qed

lemma regenerate_trace:
  "\<exists>evs. trace (snd (regenerate_response svc channel_id target w)) = trace w @ evs
         \<and> exchange_in_order (filter is_exchange evs)"
proof -
  let ?w1 = "emit (FindOne channel_id) (emit Defer w)"
  have k: "\<exists>evs. trace (snd (fetch_response svc model_id (msg_content target) channel_id ?w1))
                  = trace w @ Defer # FindOne channel_id # FindOne channel_id # evs
                \<and> filter is_exchange evs = evs \<and> exchange_in_order evs" for model_id
    using fetch_response_trace [of svc model_id "msg_content target" channel_id ?w1]
    by (simp add: emit_fields)
  show ?thesis
  proof (cases "find_one (conversations w) channel_id")
    case None
    then show ?thesis by (auto simp: regenerate_response_def Let_def emit_fields)
  next
    case (Some d)
    show ?thesis
    proof (cases "msg_author_bot target \<or> msg_content target = []")
      case True
      with Some show ?thesis by (auto simp: regenerate_response_def Let_def emit_fields)
    next
      case False
      from k [of "model d"] obtain evs where
        t: "trace (snd (fetch_response svc (model d) (msg_content target) channel_id ?w1))
              = trace w @ Defer # FindOne channel_id # FindOne channel_id # evs"
        and f: "filter is_exchange evs = evs" and o: "exchange_in_order evs"
        by blast
      from False Some t f o show ?thesis
        by (auto simp: regenerate_response_def Let_def case_prod_beta emit_fields
                 split: sum.splits)
    qed
  qed
qed

text \<open>
  Claim C9. In every run of the message handler and of the regeneration handler, whatever the
  input and the answer of the service, the appends to the store and the inference request
  occur in this order: the user entry is appended first, then the request is sent (its history
  ends with that user entry), and only then is the assistant entry appended. A run may stop
  early, but never reorders them.
\<close>

theorem exchange_order:
  "exchange_in_order (filter is_exchange (new_events w (snd (on_message svc m w))))
   \<and> exchange_in_order (filter is_exchange
        (new_events w (snd (regenerate_response svc channel_id target w))))"
  using on_message_trace [of svc m w] regenerate_trace [of svc channel_id target w]
  by (auto simp: new_events_def)

theorem exchange_order_witness:
  "exchange_in_order (filter is_exchange (new_events scenario_world
      (snd (on_message (mock (PStr ''yo'')) (user_says ''again'' 7) scenario_world))))
   \<and> exchange_in_order (filter is_exchange (new_events scenario_world
      (snd (regenerate_response (mock (PStr ''yo'')) 7 (user_says ''hello'' 7)
        scenario_world))))"
  using exchange_order [where w = scenario_world and svc = "mock (PStr ''yo'')"
          and m = "user_says ''again'' 7" and channel_id = 7
          and target = "user_says ''hello'' 7"]
  by simp

section \<open>Stripping the mention token\<close>

lemma with_mentions_stripped:
  assumes "tok \<noteq> []"
    and "\<forall>s \<in> set segs. \<not> sublist tok (s @ butlast tok)"
    and "\<not> sublist tok rest"
  shows "str_replace_empty tok (with_mentions tok segs rest) = concat segs @ rest"
  using assms
proof (induction segs)
  case Nil
  then show ?case by (simp add: str_replace_empty_absent)
next
  case (Cons s segs)
  then show ?case by (simp add: str_replace_empty_segment)
qed

lemma fetch_response_found:
  assumes "find_one (conversations w) tid = Some d" and "session_ready w"
    and "u = \<lparr>role = ''user'', content = PStr (str_replace_empty (mention w) msg)\<rparr>"
  shows "\<exists>evs. trace (snd (fetch_response svc model_id msg tid w))
                 = trace w @ [FindOne tid, UpdateOne tid u, Post model_id (messages d @ [u])] @ evs"
    and "conversations (snd (fetch_response svc model_id msg tid w))
           = update_one_push (conversations w) tid u
         \<or> (\<exists>a. conversations (snd (fetch_response svc model_id msg tid w))
                  = update_one_push (update_one_push (conversations w) tid u) tid a)"
  using assms
  by (auto simp: fetch_response_def emit_def Let_def update_one_text
           dest!: update_one_Inr split: option.splits sum.splits)

text \<open>
  Claim C10. The text is cleaned with \<^verbatim>\<open>replace\<close>, which drops every occurrence of the
  bot's mention token, wherever it stands, and not only a leading one: for a text made of
  segments, each followed by the token, and a rest (the token occurring nowhere else), the
  cleaned text is the segments and the rest joined. The user entry that is appended to the
  stored history, and that ends the history sent to the inference service, carries exactly
  this cleaned text.
\<close>

theorem mention_stripped_everywhere:
  assumes "mention w \<noteq> []"
    and "\<forall>s \<in> set segs. \<not> sublist (mention w) (s @ butlast (mention w))"
    and "\<not> sublist (mention w) rest"
    and "find_one (conversations w) tid = Some d" and "session_ready w"
    and "u = \<lparr>role = ''user'', content = PStr (concat segs @ rest)\<rparr>"
    and "w' = snd (fetch_response svc model_id (with_mentions (mention w) segs rest) tid w)"
  shows "str_replace_empty (mention w) (with_mentions (mention w) segs rest) = concat segs @ rest
         \<and> take 3 (new_events w w')
             = [FindOne tid, UpdateOne tid u, Post model_id (messages d @ [u])]
         \<and> (\<exists>d'. find_one (conversations w') tid = Some d'
                  \<and> prefix (messages d @ [u]) (messages d'))"
proof -
  let ?msg = "with_mentions (mention w) segs rest"
  have s: "str_replace_empty (mention w) ?msg = concat segs @ rest"
    using assms(1-3) by (rule with_mentions_stripped)
  have u: "u = \<lparr>role = ''user'', content = PStr (str_replace_empty (mention w) ?msg)\<rparr>"
    using assms(6) s by simp
  note f = fetch_response_found [OF assms(4,5) u, of svc model_id]
  from f(1) have t: "take 3 (new_events w w')
                       = [FindOne tid, UpdateOne tid u, Post model_id (messages d @ [u])]"
    by (auto simp: new_events_def assms(7))
  have f1: "find_one (update_one_push (conversations w) tid u) tid
              = Some (d\<lparr>messages := messages d @ [u]\<rparr>)"
    using assms(4) by (rule find_one_update_same)
  have f2: "find_one (update_one_push (update_one_push (conversations w) tid u) tid a) tid
              = Some (d\<lparr>messages := messages d @ [u, a]\<rparr>)" for a
    using find_one_update_same [OF f1, of a] by simp
  from f(2) have "\<exists>d'. find_one (conversations w') tid = Some d'
                      \<and> prefix (messages d @ [u]) (messages d')"
    unfolding assms(7) using f1 f2 by (auto simp: prefix_def)
  with s t show ?thesis by blast
qed

theorem mention_stripped_everywhere_witness:
  "mention scenario_world \<noteq> []
   \<and> find_one (conversations scenario_world) 7 = Some (hd (conversations scenario_world))
   \<and> with_mentions (mention scenario_world) [''hi '', '' there ''] ''!'' = ''hi <@1> there <@1>!''
   \<and> str_replace_empty ''<@1>'' ''hi <@1> there <@1>!'' = ''hi  there !''
   \<and> take 3 (new_events scenario_world
        (snd (fetch_response (mock (PStr ''yo'')) ''@cf/meta/llama-2-7b-chat-int8''
               ''hi <@1> there <@1>!'' 7 scenario_world)))
       = [FindOne 7, UpdateOne 7 (user_msg ''hi  there !''),
          Post ''@cf/meta/llama-2-7b-chat-int8''
            [system_entry, user_msg ''hello'', assistant_msg (PStr ''sup''),
             user_msg ''hi  there !'']]"
proof -
  have m: "mention scenario_world = ''<@1>''"
    by (simp add: scenario_world_def sample_world_def)
  have h1: "mention scenario_world \<noteq> []"
    by (simp add: m)
  have h2: "\<forall>s \<in> set [''hi '', '' there ''].
              \<not> sublist (mention scenario_world) (s @ butlast (mention scenario_world))"
    by (simp add: m sublist_Cons_right)
  have h3: "\<not> sublist (mention scenario_world) ''!''"
    by (simp add: m sublist_Cons_right)
  have h4: "find_one (conversations scenario_world) 7 = Some (hd (conversations scenario_world))"
    by (simp add: scenario_world_def sample_world_def find_one_def)
  have h5: "session_ready scenario_world"
    by (simp add: scenario_world_def sample_world_def)
  have h6: "user_msg ''hi  there !''
              = \<lparr>role = ''user'', content = PStr (concat [''hi '', '' there ''] @ ''!'')\<rparr>"
    by (simp add: user_msg_def)
  have t: "with_mentions (mention scenario_world) [''hi '', '' there ''] ''!''
             = ''hi <@1> there <@1>!''"
    by (simp add: m)
  have d: "messages (hd (conversations scenario_world))
             = [system_entry, user_msg ''hello'', assistant_msg (PStr ''sup'')]"
    by (simp add: scenario_world_def sample_world_def)
  note th = mention_stripped_everywhere [where svc = "mock (PStr ''yo'')"
      and model_id = "''@cf/meta/llama-2-7b-chat-int8''", OF h1 h2 h3 h4 h5 h6 refl]
  show ?thesis
    using h1 h4 t th [THEN conjunct1] th [THEN conjunct2, THEN conjunct1]
    unfolding t d unfolding m by simp
qed

end
